theory Spec2Isabelle
  imports Complex_Main "HOL-Library.Sublist" "HOL-Library.Char_ord" "HOL-Library.List_Lexorder"
    "HOL-Library.Product_Lexorder"
begin

section \<open>Python values, text and numbers\<close>

text \<open>
  A cell of a pandas DataFrame, and the argument of \<^verbatim>\<open>score_response\<close>, is a Python
  object. The embedding keeps the four kinds the two modules can meet: a text, a number,
  the float \<^verbatim>\<open>nan\<close> that pandas uses for a missing cell, and \<^verbatim>\<open>None\<close>.

  Numbers: Python floats are embedded as exact rationals, and \<^verbatim>\<open>round(x, 2)\<close> as rounding
  half to even on the exact value. The detector only ever adds the constants 0.4, 0.2 and 0.3
  to 0.0; the eight binary64 sums that can arise (0.0, 0.4, 0.2, 0.3, 0.6000000000000001,
  0.7, 0.5, 0.9000000000000001) lie on the same side of the thresholds 0.4, 0.6 and 1.0 as
  the exact sums, and \<^verbatim>\<open>round(1 - s, 2)\<close> of each is the float nearest to the exact result,
  so the embedding and the float program agree on every result of the detector.

  Text: a Python \<^verbatim>\<open>str\<close> is a sequence of code points, an Isabelle \<^typ>\<open>string\<close> a list
  of 8-bit characters. The embedding reads a character as the code point of the same number,
  so it covers the texts whose code points are below 256; the three character classes below
  are Python's on that range.
\<close>

datatype pyval = Str string | Num rat | NaN | NoneVal

text \<open>
  \<^verbatim>\<open>str(x)\<close>. The text of a number (Python's shortest round-trip rendering of a float) is
  not computed by the embedding: it is the parameter \<open>num_str\<close>, and every statement
  below holds for each such rendering.
\<close>

fun py_str :: "(rat \<Rightarrow> string) \<Rightarrow> pyval \<Rightarrow> string" where
  "py_str num_str (Str s) = s"
| "py_str num_str (Num r) = num_str r"
| "py_str num_str NaN = ''nan''"
| "py_str num_str NoneVal = ''None''"

text \<open>A rendering to run the definitions with on inputs that hold no number.\<close>

definition zero_str :: "rat \<Rightarrow> string" where
  "zero_str r = ''0.0''"

text \<open>\<^verbatim>\<open>str.isspace\<close> on one character: the code points below 256 that \<^verbatim>\<open>strip()\<close> removes.\<close>

definition isspace :: "char \<Rightarrow> bool" where
  "isspace c = ((of_char c :: nat) \<in> set [9, 10, 11, 12, 13, 28, 29, 30, 31, 32, 133, 160])"

text \<open>\<^verbatim>\<open>re.search(r"\d", c)\<close> on one character: below 256 only the ASCII digits are decimal digits.\<close>

definition isdigit :: "char \<Rightarrow> bool" where
  "isdigit c = (48 \<le> (of_char c :: nat) \<and> (of_char c :: nat) \<le> 57)"

text \<open>
  \<^verbatim>\<open>str.lower\<close> on one character: A to Z, and the Latin-1 capitals 192 to 222 without the
  multiplication sign 215, move up by 32; every other code point below 256 stays.
\<close>

definition lower_char :: "char \<Rightarrow> char" where
  "lower_char c =
     (let n = (of_char c :: nat)
      in if (65 \<le> n \<and> n \<le> 90) \<or> (192 \<le> n \<and> n \<le> 222 \<and> n \<noteq> 215)
         then char_of (n + 32) else c)"

definition lower :: "string \<Rightarrow> string" where
  "lower s = map lower_char s"

definition strip :: "string \<Rightarrow> string" where
  "strip s = rev (dropWhile isspace (rev (dropWhile isspace s)))"

text \<open>\<^verbatim>\<open>phrase in text\<close>: the phrase occurs in the text as a contiguous run.\<close>

fun str_contains :: "string \<Rightarrow> string \<Rightarrow> bool" where
  "str_contains [] phrase = (phrase = [])"
| "str_contains (c # cs) phrase = (prefix phrase (c # cs) \<or> str_contains cs phrase)"

text \<open>Python's \<^verbatim>\<open>round\<close>: to the nearest, a tie to the even neighbour.\<close>

definition round_half_even :: "rat \<Rightarrow> int" where
  "round_half_even x =
     (let f = \<lfloor>x\<rfloor>; d = x - of_int f
      in if d < 1 / 2 then f else if 1 / 2 < d then f + 1
         else if even f then f else f + 1)"

definition py_round :: "rat \<Rightarrow> nat \<Rightarrow> rat" where
  "py_round x ndigits = of_int (round_half_even (x * 10 ^ ndigits)) / 10 ^ ndigits"


section \<open>hallucination\_detector.py\<close>

text \<open>The class holds one attribute, set by its constructor.\<close>

record detector =
  uncertainty_phrases :: "string list"

definition HallucinationDetector :: detector where
  "HallucinationDetector =
     \<lparr>uncertainty_phrases =
        [''i think'', ''it seems'', ''possibly'', ''might be'', ''not sure'',
         ''approximately'', ''around'', ''estimated'']\<rparr>"

definition contains_uncertainty :: "detector \<Rightarrow> string \<Rightarrow> bool" where
  "contains_uncertainty self text =
     (let text = lower text
      in list_ex (\<lambda>phrase. str_contains text phrase) (uncertainty_phrases self))"

definition has_numeric_claim :: "string \<Rightarrow> bool" where
  "has_numeric_claim text = list_ex isdigit text"

text \<open>
  The body of \<^verbatim>\<open>score_response\<close> from \<^verbatim>\<open>hallucination_score = 0.0\<close> to the last
  \<^verbatim>\<open>+=\<close>, on the normalised text: the score before the clamp.
\<close>

definition raw_score :: "detector \<Rightarrow> string \<Rightarrow> rat" where
  "raw_score self response_text =
     (let hallucination_score = 0;
          hallucination_score =
            (if contains_uncertainty self response_text
             then hallucination_score + 4 / 10 else hallucination_score);
          hallucination_score =
            (if has_numeric_claim response_text
             then hallucination_score + 2 / 10 else hallucination_score);
          hallucination_score =
            (if length response_text < 30
             then hallucination_score + 3 / 10 else hallucination_score)
      in hallucination_score)"

definition score_response ::
  "(rat \<Rightarrow> string) \<Rightarrow> detector \<Rightarrow> pyval \<Rightarrow> int \<times> rat \<times> string" where
  "score_response num_str self response_text =
     (let response_text = lower (strip (py_str num_str response_text));
          hallucination_score = raw_score self response_text;
          hallucination_score = min hallucination_score 1;
          confidence_score = py_round (1 - hallucination_score) 2
      in if 6 / 10 \<le> hallucination_score then (1, confidence_score, ''hallucinated'')
         else if 4 / 10 \<le> hallucination_score then (0, confidence_score, ''uncertain'')
         else (0, confidence_score, ''accurate''))"


section \<open>pandas DataFrames\<close>

text \<open>
  A DataFrame is its column labels, in order, and its rows. A row maps a column label to the
  cell it holds; a cell that a row does not hold reads as \<^verbatim>\<open>nan\<close>, the way pandas
  fills a frame built from records that lack a key. \<^verbatim>\<open>"c" in df.columns\<close> is membership
  in the labels, whatever the rows hold.
\<close>

type_synonym row = "string \<rightharpoonup> pyval"

record dataframe =
  columns :: "string list"
  rows :: "row list"

definition cell :: "row \<Rightarrow> string \<Rightarrow> pyval" where
  "cell r c = (case r c of Some v \<Rightarrow> v | None \<Rightarrow> NaN)"

text \<open>\<^verbatim>\<open>pandas.isna\<close> on one cell.\<close>

fun isna :: "pyval \<Rightarrow> bool" where
  "isna NaN = True"
| "isna NoneVal = True"
| "isna (Str s) = False"
| "isna (Num x) = False"

text \<open>\<^verbatim>\<open>df[c] = values\<close>: a new label goes last, an old one keeps its place.\<close>

definition set_column :: "string \<Rightarrow> pyval list \<Rightarrow> dataframe \<Rightarrow> dataframe" where
  "set_column c vs df =
     \<lparr>columns = (if c \<in> set (columns df) then columns df else columns df @ [c]),
      rows = map (\<lambda>(r, v). r(c \<mapsto> v)) (zip (rows df) vs)\<rparr>"

text \<open>
  The exceptions the two modules can leave with: \<open>ValueError\<close> is the one their own
  checks raise for a missing column; \<open>KeyError\<close> and \<open>TypeError\<close> come from pandas
  and from Python arithmetic.
\<close>

datatype error = ValueError | KeyError | TypeError


section \<open>hallucination\_detector.py: batch processing\<close>



section \<open>scoring.py\<close>

text \<open>
  The scorer computes with the same exact rationals. On the confidence scores the detector
  produces (multiples of 0.1) and flags 0 and 1 the exact risk score is a multiple of 0.1,
  far from a rounding tie, so the float program rounds to the float nearest to it.
\<close>


text \<open>The first exception of a sequence of results, or all the values.\<close>

fun sequence :: "(error + 'a) list \<Rightarrow> error + 'a list" where
  "sequence [] = Inr []"
| "sequence (x # xs) =
     (case x of
        Inl e \<Rightarrow> Inl e
      | Inr v \<Rightarrow> (case sequence xs of Inl e \<Rightarrow> Inl e | Inr vs \<Rightarrow> Inr (v # vs)))"



text \<open>
  \<^verbatim>\<open>groupby("model_name")\<close> drops the rows whose key is missing and yields the distinct
  keys in sorted order, numbers before texts, texts by code point.
\<close>

fun key_order :: "pyval \<Rightarrow> nat \<times> rat \<times> string" where
  "key_order (Num x) = (0, x, [])"
| "key_order (Str s) = (1, 0, s)"
| "key_order NaN = (2, 0, [])"
| "key_order NoneVal = (2, 0, [])"

definition group_keys :: "dataframe \<Rightarrow> pyval list" where
  "group_keys df =
     sort_key key_order
       (remdups (filter (\<lambda>k. \<not> isna k) (map (\<lambda>r. cell r ''model_name'') (rows df))))"

definition group_rows :: "dataframe \<Rightarrow> pyval \<Rightarrow> row list" where
  "group_rows df k = filter (\<lambda>r. cell r ''model_name'' = k) (rows df)"

text \<open>\<^verbatim>\<open>"count"\<close>: the cells of the group that are not missing.\<close>

definition count_agg :: "pyval list \<Rightarrow> nat" where
  "count_agg x = length (filter (\<lambda>v. \<not> isna v) x)"

text \<open>\<^verbatim>\<open>lambda x: (x == label).sum()\<close>.\<close>

definition count_eq :: "string \<Rightarrow> pyval list \<Rightarrow> nat" where
  "count_eq label x = length (filter (\<lambda>v. v = Str label) x)"

text \<open>
  \<^verbatim>\<open>"mean"\<close>: the mean of the numbers of the group, missing cells skipped, \<^verbatim>\<open>nan\<close>
  when no number is left; a text in the group raises.
\<close>

definition mean_agg :: "pyval list \<Rightarrow> error + pyval" where
  "mean_agg x =
     (if list_ex (\<lambda>v. case v of Str s \<Rightarrow> True | _ \<Rightarrow> False) x then Inl TypeError
      else
        let nums = concat (map (\<lambda>v. case v of Num a \<Rightarrow> [a] | _ \<Rightarrow> []) x)
        in if nums = [] then Inr NaN
           else Inr (Num (sum_list nums / of_nat (length nums))))"

text \<open>One row of \<^verbatim>\<open>.agg(...).reset_index()\<close>, for the group of key \<open>k\<close>.\<close>

definition agg_row :: "dataframe \<Rightarrow> pyval \<Rightarrow> error + row" where
  "agg_row df k =
     (let g = group_rows df k;
          final_label = map (\<lambda>r. cell r ''final_label'') g
      in case mean_agg (map (\<lambda>r. cell r ''confidence_score'') g) of
           Inl e \<Rightarrow> Inl e
         | Inr avg_confidence \<Rightarrow>
             (case mean_agg (map (\<lambda>r. cell r ''hallucination_risk_score'') g) of
                Inl e \<Rightarrow> Inl e
              | Inr avg_risk \<Rightarrow>
                  Inr [''model_name'' \<mapsto> k,
                       ''total_responses'' \<mapsto> Num (of_nat (count_agg final_label)),
                       ''hallucinated_count'' \<mapsto>
                          Num (of_nat (count_eq ''hallucinated'' final_label)),
                       ''uncertain_count'' \<mapsto>
                          Num (of_nat (count_eq ''uncertain'' final_label)),
                       ''avg_confidence_score'' \<mapsto> avg_confidence,
                       ''avg_risk_score'' \<mapsto> avg_risk]))"

text \<open>
  \<^verbatim>\<open>(a / b).round(2)\<close> on two cells of the summary. Both hold counts, and the numerator
  never exceeds the denominator, so the only division by zero is 0 / 0, which is \<^verbatim>\<open>nan\<close>.
\<close>

fun div_round :: "pyval \<Rightarrow> pyval \<Rightarrow> pyval" where
  "div_round (Num a) (Num b) = (if b = 0 then NaN else Num (py_round (a / b) 2))"
| "div_round a b = NaN"

definition aggregated_cols :: "string list" where
  "aggregated_cols = [''final_label'', ''confidence_score'', ''hallucination_risk_score'']"

text \<open>
  The only check of the function itself is the one for \<^verbatim>\<open>model_name\<close>. A column named in
  \<^verbatim>\<open>.agg\<close> that the frame lacks makes pandas raise \<open>KeyError\<close> before any group is
  aggregated.
\<close>

definition generate_model_summary :: "dataframe \<Rightarrow> error + dataframe" where
  "generate_model_summary df =
     (if ''model_name'' \<notin> set (columns df) then Inl ValueError
      else if \<not> set aggregated_cols \<subseteq> set (columns df) then Inl KeyError
      else
        case sequence (map (agg_row df) (group_keys df)) of
          Inl e \<Rightarrow> Inl e
        | Inr rs \<Rightarrow>
            let summary =
                  \<lparr>columns = [''model_name'', ''total_responses'', ''hallucinated_count'',
                              ''uncertain_count'', ''avg_confidence_score'', ''avg_risk_score''],
                   rows = rs\<rparr>
            in Inr (set_column ''hallucination_rate''
                      (map (\<lambda>r. div_round (cell r ''hallucinated_count'')
                                   (cell r ''total_responses''))
                         (rows summary))
                      summary))"


text \<open>The final labels of the group of key \<open>k\<close>: the column the three counts read.\<close>

definition labels_of :: "dataframe \<Rightarrow> pyval \<Rightarrow> pyval list" where
  "labels_of df k = map (\<lambda>r. cell r ''final_label'') (group_rows df k)"


section \<open>Frames to run the definitions on\<close>

text \<open>\<^verbatim>\<open>df.values.tolist()\<close>: the cells, row by row, in the order of the column labels.\<close>

definition values_tolist :: "dataframe \<Rightarrow> pyval list list" where
  "values_tolist df = map (\<lambda>r. map (cell r) (columns df)) (rows df)"

text \<open>The frame of the quick test at the end of \<^verbatim>\<open>scoring.py\<close>.\<close>

definition sample_data :: dataframe where
  "sample_data =
     \<lparr>columns = [''model_name'', ''hallucination_flag'', ''confidence_score'', ''final_label''],
      rows =
        [[''model_name'' \<mapsto> Str ''Model-A'', ''hallucination_flag'' \<mapsto> Num 0,
          ''confidence_score'' \<mapsto> Num (9 / 10), ''final_label'' \<mapsto> Str ''accurate''],
         [''model_name'' \<mapsto> Str ''Model-A'', ''hallucination_flag'' \<mapsto> Num 1,
          ''confidence_score'' \<mapsto> Num (4 / 10), ''final_label'' \<mapsto> Str ''hallucinated''],
         [''model_name'' \<mapsto> Str ''Model-B'', ''hallucination_flag'' \<mapsto> Num 0,
          ''confidence_score'' \<mapsto> Num (8 / 10), ''final_label'' \<mapsto> Str ''uncertain'']]\<rparr>"

text \<open>The same frame with the risk scores that \<open>compute_final_score\<close> adds to it.\<close>

definition scored_data :: dataframe where
  "scored_data =
     set_column ''hallucination_risk_score'' [Num (1 / 10), Num (11 / 10), Num (2 / 10)]
       sample_data"


text \<open>One model with two rows, the second with no final label (an empty cell of a file).\<close>

definition missing_label :: dataframe where
  "missing_label =
     \<lparr>columns = [''model_name'', ''final_label'', ''confidence_score'',
                 ''hallucination_risk_score''],
      rows =
        [[''model_name'' \<mapsto> Str ''Model-A'', ''final_label'' \<mapsto> Str ''accurate'',
          ''confidence_score'' \<mapsto> Num 1, ''hallucination_risk_score'' \<mapsto> Num 0],
         [''model_name'' \<mapsto> Str ''Model-A'', ''final_label'' \<mapsto> NaN,
          ''confidence_score'' \<mapsto> Num (7 / 10), ''hallucination_risk_score'' \<mapsto> Num (3 / 10)]]\<rparr>"



section \<open>Properties of the detector\<close>

text \<open>\<open>str_contains\<close> is the library's notion of a contiguous sublist.\<close>

lemma str_contains_sublist: "str_contains t p \<longleftrightarrow> sublist p t"
  by (induction t) (simp_all add: sublist_Cons_right)

lemma lower_char_idem: "lower_char (lower_char c) = lower_char c"
  by (auto simp add: lower_char_def Let_def)

lemma lower_idem: "lower (lower s) = lower s"
  by (simp add: lower_def lower_char_idem)

lemma raw_score_cases:
  "raw_score self t =
     (if contains_uncertainty self t then 4 / 10 else 0)
     + (if has_numeric_claim t then 2 / 10 else 0)
     + (if length t < 30 then 3 / 10 else 0)"
  by (simp add: raw_score_def Let_def)

lemma raw_score_le: "raw_score self t \<le> 9 / 10"
  by (simp add: raw_score_cases)

lemma raw_score_ge: "0 \<le> raw_score self t"
  by (simp add: raw_score_cases)

lemma score_response_cases:
  "score_response num_str self v =
     (let s = raw_score self (lower (strip (py_str num_str v)))
      in if 6 / 10 \<le> s then (1, py_round (1 - s) 2, ''hallucinated'')
         else if 4 / 10 \<le> s then (0, py_round (1 - s) 2, ''uncertain'')
         else (0, py_round (1 - s) 2, ''accurate''))"
proof -
  have "min (raw_score self t) 1 = raw_score self t" for t
    using raw_score_le [of self t] by simp
  then show ?thesis by (simp add: score_response_def Let_def)
qed

lemma contains_uncertainty_lower:
  "contains_uncertainty self (lower t)
     \<longleftrightarrow> (\<exists>p \<in> set (uncertainty_phrases self). str_contains (lower t) p)"
  by (simp add: contains_uncertainty_def Let_def lower_idem list_ex_iff)

lemma strip_all_space: "\<forall>c \<in> set t. isspace c \<Longrightarrow> strip t = []"
proof -
  assume "\<forall>c \<in> set t. isspace c"
  then have "dropWhile isspace t = []" by (simp add: dropWhile_eq_Nil_conv)
  then have "strip t = rev (dropWhile isspace (rev []))" by (simp only: strip_def)
  then show ?thesis by simp
qed

lemma py_round_conf:
  "py_round (1 - ((if a then 4 / 10 else 0) + (if b then 2 / 10 else 0)
                  + (if c then 3 / 10 else 0))) 2
     = 1 - ((if a then 4 / 10 else 0) + (if b then 2 / 10 else 0) + (if c then 3 / 10 else 0))"
  by (cases a; cases b; cases c) (simp_all add: py_round_def round_half_even_def Let_def)

lemma confidence_exact:
  "fst (snd (score_response num_str self v))
     = 1 - raw_score self (lower (strip (py_str num_str v)))"
  by (simp add: score_response_cases Let_def) (simp add: raw_score_cases py_round_conf)

text \<open>
  C1. Whatever the argument, \<open>score_response\<close> normalises its text (strip, then lower
  case), adds 0.4 when the normalised text contains one of the detector's phrases, 0.2 when
  it contains a digit and 0.3 when it is shorter than 30 characters, caps the sum at 1,
  returns \<open>round(1 - score, 2)\<close> as the confidence, and labels the response
  hallucinated with flag 1 from 0.6 on, uncertain with flag 0 from 0.4 to below 0.6, and
  accurate with flag 0 below that.
\<close>

theorem score_response_sum_of_contributions:
  "score_response num_str self v =
     (let n = lower (strip (py_str num_str v));
          score = (if \<exists>p \<in> set (uncertainty_phrases self). str_contains n p
                   then 4 / 10 else 0)
                + (if \<exists>c \<in> set n. isdigit c then 2 / 10 else 0)
                + (if length n < 30 then 3 / 10 else 0);
          clamped = min score 1;
          confidence = py_round (1 - clamped) 2
      in if 6 / 10 \<le> clamped then (1, confidence, ''hallucinated'')
         else if 4 / 10 \<le> clamped \<and> clamped < 6 / 10 then (0, confidence, ''uncertain'')
         else (0, confidence, ''accurate''))"
  by (simp add: score_response_def Let_def raw_score_cases contains_uncertainty_lower
      has_numeric_claim_def list_ex_iff)

text \<open>Scenario A of the specification, through the theorem.\<close>

theorem score_response_sum_of_contributions_witness:
  "score_response zero_str HallucinationDetector
     (Str ''I think it might be around 5 years old.'') = (1, 2 / 5, ''hallucinated'')"
proof -
  have "score_response zero_str HallucinationDetector
          (Str ''I think it might be around 5 years old.'')
     = (let n = lower (strip (py_str zero_str
                   (Str ''I think it might be around 5 years old.'')));
          score = (if \<exists>p \<in> set (uncertainty_phrases HallucinationDetector).
                        str_contains n p
                   then 4 / 10 else 0)
                + (if \<exists>c \<in> set n. isdigit c then 2 / 10 else 0)
                + (if length n < 30 then 3 / 10 else 0);
          clamped = min score 1;
          confidence = py_round (1 - clamped) 2
      in if 6 / 10 \<le> clamped then (1, confidence, ''hallucinated'')
         else if 4 / 10 \<le> clamped \<and> clamped < 6 / 10 then (0, confidence, ''uncertain'')
         else (0, confidence, ''accurate''))"
    by (rule score_response_sum_of_contributions)
  also have "\<dots> = (1, 2 / 5, ''hallucinated'')"
    by code_simp
  finally show ?thesis .
qed

text \<open>
  C2, as the specification states it, fails: on \<^verbatim>\<open>"Approximately 42"\<close> the three
  contributions add up to 0.9, which the cap at 1.0 leaves alone, and the confidence is
  0.1, not 0.
\<close>

theorem approximately_42_counterexample:
  "min (raw_score HallucinationDetector (lower (strip ''Approximately 42''))) 1 \<noteq> 1
   \<and> score_response zero_str HallucinationDetector (Str ''Approximately 42'')
       \<noteq> (1, 0, ''hallucinated'')"
  by code_simp

text \<open>
  C2, amended. On \<^verbatim>\<open>"Approximately 42"\<close> a phrase is present, a digit is present and the
  text is shorter than 30 characters; the score is 0.9, and \<open>score_response\<close> returns
  confidence 0.10, flag 1 and the label hallucinated.
\<close>

theorem approximately_42_scores_nine_tenths:
  "contains_uncertainty HallucinationDetector (lower (strip ''Approximately 42''))
   \<and> has_numeric_claim (lower (strip ''Approximately 42''))
   \<and> length (lower (strip ''Approximately 42'')) < 30
   \<and> raw_score HallucinationDetector (lower (strip ''Approximately 42'')) = 9 / 10
   \<and> score_response num_str HallucinationDetector (Str ''Approximately 42'')
       = (1, 1 / 10, ''hallucinated'')"
  by code_simp

theorem approximately_42_scores_nine_tenths_witness:
  "score_response zero_str HallucinationDetector (Str ''Approximately 42'')
     = (1, 1 / 10, ''hallucinated'')"
  using approximately_42_scores_nine_tenths [of zero_str] by (rule conjunct2 [THEN conjunct2, THEN conjunct2, THEN conjunct2])

text \<open>
  C8. \<open>score_response\<close> is a function of its argument alone and has a result on every
  argument: a flag in 0, 1, a confidence between 0 and 1 and one of the three labels. With
  the constructor's phrases, \<^verbatim>\<open>None\<close>, \<^verbatim>\<open>nan\<close> and a text of white space only are
  classified as the empty text is: flag 0, confidence 0.7, accurate.
\<close>

theorem score_response_total_missing_as_empty:
  "(\<exists>flag confidence_score final_label.
       score_response num_str self v = (flag, confidence_score, final_label)
       \<and> flag \<in> {0, 1} \<and> 0 \<le> confidence_score \<and> confidence_score \<le> 1
       \<and> final_label \<in> {''accurate'', ''uncertain'', ''hallucinated''})
   \<and> score_response num_str HallucinationDetector (Str []) = (0, 7 / 10, ''accurate'')
   \<and> score_response num_str HallucinationDetector NoneVal
        = score_response num_str HallucinationDetector (Str [])
   \<and> score_response num_str HallucinationDetector NaN
        = score_response num_str HallucinationDetector (Str [])
   \<and> ((\<forall>c \<in> set text. isspace c) \<longrightarrow>
        score_response num_str HallucinationDetector (Str text)
          = score_response num_str HallucinationDetector (Str []))"
proof -
  let ?s = "raw_score self (lower (strip (py_str num_str v)))"
  have "0 \<le> ?s" "?s \<le> 9 / 10" by (rule raw_score_ge, rule raw_score_le)
  then have total: "\<exists>flag confidence_score final_label.
       score_response num_str self v = (flag, confidence_score, final_label)
       \<and> flag \<in> {0, 1} \<and> 0 \<le> confidence_score \<and> confidence_score \<le> 1
       \<and> final_label \<in> {''accurate'', ''uncertain'', ''hallucinated''}"
    using confidence_exact [of num_str self v]
    by (simp add: score_response_cases Let_def split: if_splits)
  have e: "score_response num_str HallucinationDetector (Str []) = (0, 7 / 10, ''accurate'')"
    by code_simp
  have n: "score_response num_str HallucinationDetector NoneVal = (0, 7 / 10, ''accurate'')"
    by code_simp
  have m: "score_response num_str HallucinationDetector NaN = (0, 7 / 10, ''accurate'')"
    by code_simp
  have w: "(\<forall>c \<in> set text. isspace c) \<longrightarrow>
        score_response num_str HallucinationDetector (Str text)
          = score_response num_str HallucinationDetector (Str [])"
  proof
    assume "\<forall>c \<in> set text. isspace c"
    then have "strip text = strip []" by (simp add: strip_all_space)
    then show "score_response num_str HallucinationDetector (Str text)
          = score_response num_str HallucinationDetector (Str [])"
      by (simp add: score_response_def)
  qed
  from total e n m w show ?thesis by simp
qed

text \<open>A text of two blanks, \<^verbatim>\<open>None\<close> and \<^verbatim>\<open>"Yes."\<close>, through the theorem.\<close>

theorem score_response_total_missing_as_empty_witness:
  "list_all isspace ''  ''
   \<and> score_response zero_str HallucinationDetector (Str ''  '') = (0, 7 / 10, ''accurate'')
   \<and> score_response zero_str HallucinationDetector NoneVal = (0, 7 / 10, ''accurate'')
   \<and> score_response zero_str HallucinationDetector NaN = (0, 7 / 10, ''accurate'')"
proof -
  have h: "\<forall>c \<in> set ''  ''. isspace c" by code_simp
  have l: "list_all isspace ''  ''" by code_simp
  note t = score_response_total_missing_as_empty
             [of zero_str HallucinationDetector "Str ''Yes.''" "''  ''"]
  from t h have "score_response zero_str HallucinationDetector (Str ''  '')
                   = (0, 7 / 10, ''accurate'')"
    by simp
  moreover from t have "score_response zero_str HallucinationDetector NoneVal
                   = (0, 7 / 10, ''accurate'')"
    by simp
  moreover from t have "score_response zero_str HallucinationDetector NaN
                   = (0, 7 / 10, ''accurate'')"
    by simp
  ultimately show ?thesis using l by simp
qed

text \<open>
  C9. Before the cap the score is at most 0.4 + 0.2 + 0.3 = 0.9, so \<open>min\<close> with 1.0
  returns it unchanged, and the confidence returned is at least 0.1: it is never 0.
\<close>

theorem clamp_never_takes_effect:
  "(let s = raw_score self (lower (strip (py_str num_str v)));
        confidence_score = fst (snd (score_response num_str self v))
    in s \<le> 9 / 10 \<and> min s 1 = s \<and> 1 / 10 \<le> confidence_score \<and> confidence_score \<noteq> 0)"
proof -
  let ?s = "raw_score self (lower (strip (py_str num_str v)))"
  have le: "?s \<le> 9 / 10" by (rule raw_score_le)
  then have "min ?s 1 = ?s" by simp
  moreover have "1 / 10 \<le> 1 - ?s" using le by simp
  ultimately show ?thesis using le by (simp add: Let_def confidence_exact)
qed

text \<open>The text that reaches the bound, through the theorem.\<close>

theorem clamp_never_takes_effect_witness:
  "raw_score HallucinationDetector (lower (strip (py_str zero_str (Str ''Around 1999'')))) = 9 / 10
   \<and> 1 / 10 \<le> fst (snd (score_response zero_str HallucinationDetector (Str ''Around 1999'')))"
proof -
  have "raw_score HallucinationDetector (lower (strip (py_str zero_str (Str ''Around 1999''))))
          = 9 / 10"
    by code_simp
  moreover have "1 / 10 \<le> fst (snd (score_response zero_str HallucinationDetector
                                      (Str ''Around 1999'')))"
    using clamp_never_takes_effect [of HallucinationDetector zero_str "Str ''Around 1999''"]
    by (simp only: Let_def)
  ultimately show ?thesis by (rule conjI)
qed


section \<open>Properties of the frames\<close>

lemma sequence_map_Inr_id: "sequence (map Inr vs) = Inr vs"
  by (induction vs) simp_all

lemma sequence_Inr_D: "sequence xs = Inr vs \<Longrightarrow> xs = map Inr vs"
  by (induction xs arbitrary: vs) (auto split: sum.splits)

lemma sequence_Inr_iff: "sequence xs = Inr vs \<longleftrightarrow> xs = map Inr vs"
  using sequence_Inr_D sequence_map_Inr_id by blast

lemma sequence_map_Inr:
  assumes "sequence (map f xs) = Inr vs"
  shows "length vs = length xs" and "i < length xs \<Longrightarrow> f (xs ! i) = Inr (vs ! i)"
proof -
  from assms have eq: "map f xs = map Inr vs" by (simp add: sequence_Inr_iff)
  then show len: "length vs = length xs" by (metis length_map)
  assume "i < length xs"
  with eq len show "f (xs ! i) = Inr (vs ! i)" by (metis nth_map)
qed

lemma sequence_map_total:
  assumes "\<forall>x \<in> set xs. \<exists>v. f x = Inr v"
  shows "\<exists>vs. sequence (map f xs) = Inr vs"
  using assms by (induction xs) auto








lemma group_keys_set:
  "set (group_keys df) = {k. \<not> isna k \<and> (\<exists>r \<in> set (rows df). cell r ''model_name'' = k)}"
  by (auto simp add: group_keys_def)

lemma group_keys_distinct: "distinct (group_keys df)"
  by (simp add: group_keys_def)

lemma count_le: "count_eq ''hallucinated'' x + count_eq ''uncertain'' x \<le> count_agg x"
  by (induction x) (auto simp add: count_eq_def count_agg_def)

lemma agg_row_Inr:
  assumes "agg_row df k = Inr r"
  shows "cell r ''model_name'' = k"
    and "cell r ''total_responses''
           = Num (of_nat (count_agg (map (\<lambda>r. cell r ''final_label'') (group_rows df k))))"
    and "cell r ''hallucinated_count''
           = Num (of_nat (count_eq ''hallucinated''
                     (map (\<lambda>r. cell r ''final_label'') (group_rows df k))))"
    and "cell r ''uncertain_count''
           = Num (of_nat (count_eq ''uncertain''
                     (map (\<lambda>r. cell r ''final_label'') (group_rows df k))))"
    and "mean_agg (map (\<lambda>r. cell r ''confidence_score'') (group_rows df k))
           = Inr (cell r ''avg_confidence_score'')"
    and "mean_agg (map (\<lambda>r. cell r ''hallucination_risk_score'') (group_rows df k))
           = Inr (cell r ''avg_risk_score'')"
  using assms by (auto simp add: agg_row_def Let_def cell_def split: sum.splits)

lemma rows_set_column_map:
  "rows (set_column c (map f (rows df)) df) = map (\<lambda>r. r(c \<mapsto> f r)) (rows df)"
  by (simp add: set_column_def zip_map2 zip_same_conv_map)

lemma cell_upd_same: "cell (r(c \<mapsto> v)) c = v"
  by (simp add: cell_def)

lemma cell_upd_other: "c' \<noteq> c \<Longrightarrow> cell (r(c \<mapsto> v)) c' = cell r c'"
  by (simp add: cell_def)


lemma generate_model_summary_Inr:
  assumes "generate_model_summary df = Inr summary"
  shows "\<exists>rs. sequence (map (agg_row df) (group_keys df)) = Inr rs
           \<and> rows summary =
               map (\<lambda>r. r(''hallucination_rate'' \<mapsto>
                            div_round (cell r ''hallucinated_count'') (cell r ''total_responses'')))
                 rs"
proof -
  from assms obtain rs where seq: "sequence (map (agg_row df) (group_keys df)) = Inr rs"
    and out: "summary = set_column ''hallucination_rate''
                (map (\<lambda>r. div_round (cell r ''hallucinated_count'') (cell r ''total_responses''))
                   (rows \<lparr>columns = [''model_name'', ''total_responses'', ''hallucinated_count'',
                              ''uncertain_count'', ''avg_confidence_score'', ''avg_risk_score''],
                         rows = rs\<rparr>))
                \<lparr>columns = [''model_name'', ''total_responses'', ''hallucinated_count'',
                              ''uncertain_count'', ''avg_confidence_score'', ''avg_risk_score''],
                 rows = rs\<rparr>"
    by (auto simp add: generate_model_summary_def Let_def split: if_splits sum.splits)
  have "rows summary =
               map (\<lambda>r. r(''hallucination_rate'' \<mapsto>
                            div_round (cell r ''hallucinated_count'') (cell r ''total_responses'')))
                 rs"
    unfolding out rows_set_column_map by simp
  with seq show ?thesis by blast
qed

lemma summary_nth:
  assumes ok: "generate_model_summary df = Inr summary"
  shows "length (rows summary) = length (group_keys df)"
    and "i < length (group_keys df) \<Longrightarrow>
           cell (rows summary ! i) ''model_name'' = group_keys df ! i
           \<and> cell (rows summary ! i) ''total_responses''
               = Num (of_nat (count_agg (labels_of df (group_keys df ! i))))
           \<and> cell (rows summary ! i) ''hallucinated_count''
               = Num (of_nat (count_eq ''hallucinated'' (labels_of df (group_keys df ! i))))
           \<and> cell (rows summary ! i) ''uncertain_count''
               = Num (of_nat (count_eq ''uncertain'' (labels_of df (group_keys df ! i))))
           \<and> cell (rows summary ! i) ''hallucination_rate''
               = div_round (Num (of_nat (count_eq ''hallucinated'' (labels_of df (group_keys df ! i)))))
                   (Num (of_nat (count_agg (labels_of df (group_keys df ! i)))))"
proof -
  from ok obtain rs where seq: "sequence (map (agg_row df) (group_keys df)) = Inr rs"
    and rws: "rows summary =
               map (\<lambda>r. r(''hallucination_rate'' \<mapsto>
                            div_round (cell r ''hallucinated_count'') (cell r ''total_responses'')))
                 rs"
    using generate_model_summary_Inr by blast
  have len: "length rs = length (group_keys df)" using seq by (rule sequence_map_Inr)
  then show "length (rows summary) = length (group_keys df)" by (simp add: rws)
  assume i: "i < length (group_keys df)"
  have a: "agg_row df (group_keys df ! i) = Inr (rs ! i)" using seq i by (rule sequence_map_Inr)
  have r: "rows summary ! i = (rs ! i)(''hallucination_rate'' \<mapsto>
             div_round (cell (rs ! i) ''hallucinated_count'') (cell (rs ! i) ''total_responses''))"
    using i len by (simp add: rws)
  show "cell (rows summary ! i) ''model_name'' = group_keys df ! i
           \<and> cell (rows summary ! i) ''total_responses''
               = Num (of_nat (count_agg (labels_of df (group_keys df ! i))))
           \<and> cell (rows summary ! i) ''hallucinated_count''
               = Num (of_nat (count_eq ''hallucinated'' (labels_of df (group_keys df ! i))))
           \<and> cell (rows summary ! i) ''uncertain_count''
               = Num (of_nat (count_eq ''uncertain'' (labels_of df (group_keys df ! i))))
           \<and> cell (rows summary ! i) ''hallucination_rate''
               = div_round (Num (of_nat (count_eq ''hallucinated'' (labels_of df (group_keys df ! i)))))
                   (Num (of_nat (count_agg (labels_of df (group_keys df ! i)))))"
    unfolding r labels_of_def
    by (simp add: cell_upd_same cell_upd_other agg_row_Inr [OF a])
qed

lemma summary_names:
  assumes ok: "generate_model_summary df = Inr summary"
  shows "map (\<lambda>s. cell s ''model_name'') (rows summary) = group_keys df"
proof (rule nth_equalityI)
  show "length (map (\<lambda>s. cell s ''model_name'') (rows summary)) = length (group_keys df)"
    using summary_nth(1) [OF ok] by simp
  fix i assume "i < length (map (\<lambda>s. cell s ''model_name'') (rows summary))"
  then have i: "i < length (group_keys df)" using summary_nth(1) [OF ok] by simp
  then show "map (\<lambda>s. cell s ''model_name'') (rows summary) ! i = group_keys df ! i"
    using summary_nth(2) [OF ok i] summary_nth(1) [OF ok] by simp
qed

lemma summary_row:
  assumes ok: "generate_model_summary df = Inr summary" and s: "s \<in> set (rows summary)"
  shows "cell s ''model_name'' \<in> set (group_keys df)
         \<and> cell s ''total_responses''
             = Num (of_nat (count_agg (labels_of df (cell s ''model_name''))))
         \<and> cell s ''hallucinated_count''
             = Num (of_nat (count_eq ''hallucinated'' (labels_of df (cell s ''model_name''))))
         \<and> cell s ''uncertain_count''
             = Num (of_nat (count_eq ''uncertain'' (labels_of df (cell s ''model_name''))))
         \<and> cell s ''hallucination_rate''
             = div_round (Num (of_nat (count_eq ''hallucinated'' (labels_of df (cell s ''model_name'')))))
                 (Num (of_nat (count_agg (labels_of df (cell s ''model_name'')))))"
proof -
  from s obtain i where i: "i < length (rows summary)" and si: "s = rows summary ! i"
    by (metis in_set_conv_nth)
  then have i': "i < length (group_keys df)" using summary_nth(1) [OF ok] by simp
  have k: "cell s ''model_name'' = group_keys df ! i" using summary_nth(2) [OF ok i'] si by simp
  have "group_keys df ! i \<in> set (group_keys df)" using i' by simp
  then show ?thesis using summary_nth(2) [OF ok i'] si k by simp
qed

lemma count_agg_labels:
  "count_agg (labels_of df k)
     = length (filter (\<lambda>r. cell r ''model_name'' = k \<and> \<not> isna (cell r ''final_label'')) (rows df))"
  by (simp add: count_agg_def labels_of_def group_rows_def filter_map comp_def conj_commute)

lemma count_eq_labels:
  "count_eq l (labels_of df k)
     = length (filter (\<lambda>r. cell r ''model_name'' = k \<and> cell r ''final_label'' = Str l) (rows df))"
  by (simp add: count_eq_def labels_of_def group_rows_def filter_map comp_def conj_commute)

lemma mean_agg_total:
  "\<forall>v \<in> set x. \<forall>s. v \<noteq> Str s \<Longrightarrow> \<exists>m. mean_agg x = Inr m"
proof -
  assume a: "\<forall>v \<in> set x. \<forall>s. v \<noteq> Str s"
  have "\<not> list_ex (\<lambda>v. case v of Str s \<Rightarrow> True | _ \<Rightarrow> False) x"
  proof
    assume "list_ex (\<lambda>v. case v of Str s \<Rightarrow> True | _ \<Rightarrow> False) x"
    then obtain v where "v \<in> set x" and "case v of Str s \<Rightarrow> True | _ \<Rightarrow> False"
      by (auto simp add: list_ex_iff)
    with a show False by (cases v) auto
  qed
  then show ?thesis by (simp add: mean_agg_def Let_def)
qed

lemma agg_row_total:
  assumes "\<forall>r \<in> set (rows df). \<forall>s. cell r ''confidence_score'' \<noteq> Str s
                                  \<and> cell r ''hallucination_risk_score'' \<noteq> Str s"
  shows "\<exists>row. agg_row df k = Inr row"
proof -
  have sub: "set (group_rows df k) \<subseteq> set (rows df)" by (auto simp add: group_rows_def)
  have "\<forall>v \<in> set (map (\<lambda>r. cell r ''confidence_score'') (group_rows df k)). \<forall>s. v \<noteq> Str s"
    using assms sub by auto
  then obtain m1 where m1: "mean_agg (map (\<lambda>r. cell r ''confidence_score'') (group_rows df k)) = Inr m1"
    using mean_agg_total by blast
  have "\<forall>v \<in> set (map (\<lambda>r. cell r ''hallucination_risk_score'') (group_rows df k)). \<forall>s. v \<noteq> Str s"
    using assms sub by auto
  then obtain m2 where m2: "mean_agg (map (\<lambda>r. cell r ''hallucination_risk_score'') (group_rows df k)) = Inr m2"
    using mean_agg_total by blast
  show ?thesis by (simp add: agg_row_def Let_def m1 m2)
qed

lemma generate_model_summary_total:
  assumes "''model_name'' \<in> set (columns df)" and "set aggregated_cols \<subseteq> set (columns df)"
    and "\<forall>r \<in> set (rows df). \<forall>s. cell r ''confidence_score'' \<noteq> Str s
                                  \<and> cell r ''hallucination_risk_score'' \<noteq> Str s"
  shows "\<exists>summary. generate_model_summary df = Inr summary"
proof -
  have "\<forall>k \<in> set (group_keys df). \<exists>row. agg_row df k = Inr row"
    using agg_row_total [OF assms(3)] by blast
  then have "\<exists>rs. sequence (map (agg_row df) (group_keys df)) = Inr rs"
    by (rule sequence_map_total)
  then obtain rs where "sequence (map (agg_row df) (group_keys df)) = Inr rs" ..
  then show ?thesis
    unfolding generate_model_summary_def Let_def using assms(1,2) by simp
qed



lemma map_sum_values_Inr:
  "map_sum id values_tolist x = Inr vs \<Longrightarrow> \<exists>df. x = Inr df \<and> values_tolist df = vs"
  by (cases x) simp_all

lemma length_values_tolist: "length (values_tolist df) = length (rows df)"
  by (simp add: values_tolist_def)






section \<open>Properties of the scorer\<close>








text \<open>
  C5, as the specification states it, fails: \<^verbatim>\<open>"count"\<close> leaves out the rows whose
  final label is missing. The model below has two rows, one with no label, and its
  \<^verbatim>\<open>total_responses\<close> is 1.
\<close>

theorem total_responses_row_count_counterexample:
  "map_sum id values_tolist (generate_model_summary missing_label)
     = Inr [[Str ''Model-A'', Num 1, Num 0, Num 0, Num (17 / 20), Num (3 / 20), Num 0]]
   \<and> length (group_rows missing_label (Str ''Model-A'')) = 2"
  by code_simp

text \<open>
  C5, amended. When \<open>generate_model_summary\<close> returns, the model names of the summary
  are pairwise distinct and are exactly the model names that are present (not missing) in
  some row of the input. In each summary, \<^verbatim>\<open>total_responses\<close> is the number of rows of
  that model whose final label is present, and \<^verbatim>\<open>hallucinated_count\<close> and
  \<^verbatim>\<open>uncertain_count\<close> are the numbers of its rows whose final label is
  \<^verbatim>\<open>"hallucinated"\<close> and \<^verbatim>\<open>"uncertain"\<close>. When no final label is missing,
  \<^verbatim>\<open>total_responses\<close> is the number of rows of the model. The function returns whenever
  \<^verbatim>\<open>model_name\<close> and the three aggregated columns are there and the two averaged columns
  hold no text.
\<close>

theorem one_summary_per_model:
  "(generate_model_summary df = Inr summary \<longrightarrow>
      distinct (map (\<lambda>s. cell s ''model_name'') (rows summary))
      \<and> set (map (\<lambda>s. cell s ''model_name'') (rows summary))
          = {k. \<not> isna k \<and> (\<exists>r \<in> set (rows df). cell r ''model_name'' = k)}
      \<and> (\<forall>s \<in> set (rows summary).
            cell s ''total_responses''
              = Num (of_nat (length (filter
                  (\<lambda>r. cell r ''model_name'' = cell s ''model_name''
                       \<and> \<not> isna (cell r ''final_label'')) (rows df))))
            \<and> cell s ''hallucinated_count''
              = Num (of_nat (length (filter
                  (\<lambda>r. cell r ''model_name'' = cell s ''model_name''
                       \<and> cell r ''final_label'' = Str ''hallucinated'') (rows df))))
            \<and> cell s ''uncertain_count''
              = Num (of_nat (length (filter
                  (\<lambda>r. cell r ''model_name'' = cell s ''model_name''
                       \<and> cell r ''final_label'' = Str ''uncertain'') (rows df)))))
      \<and> ((\<forall>r \<in> set (rows df). \<not> isna (cell r ''final_label'')) \<longrightarrow>
           (\<forall>s \<in> set (rows summary).
              cell s ''total_responses''
                = Num (of_nat (length (filter
                    (\<lambda>r. cell r ''model_name'' = cell s ''model_name'') (rows df)))))))
   \<and> (''model_name'' \<in> set (columns df) \<and> set aggregated_cols \<subseteq> set (columns df)
        \<and> (\<forall>r \<in> set (rows df). \<forall>s. cell r ''confidence_score'' \<noteq> Str s
                                      \<and> cell r ''hallucination_risk_score'' \<noteq> Str s)
      \<longrightarrow> (\<exists>summary. generate_model_summary df = Inr summary))"
proof (intro conjI impI)
  assume ok: "generate_model_summary df = Inr summary"
  have names: "map (\<lambda>s. cell s ''model_name'') (rows summary) = group_keys df"
    using ok by (rule summary_names)
  show "distinct (map (\<lambda>s. cell s ''model_name'') (rows summary))"
    by (simp only: names group_keys_distinct)
  show "set (map (\<lambda>s. cell s ''model_name'') (rows summary))
          = {k. \<not> isna k \<and> (\<exists>r \<in> set (rows df). cell r ''model_name'' = k)}"
    by (simp only: names group_keys_set)
  show counts: "\<forall>s \<in> set (rows summary).
            cell s ''total_responses''
              = Num (of_nat (length (filter
                  (\<lambda>r. cell r ''model_name'' = cell s ''model_name''
                       \<and> \<not> isna (cell r ''final_label'')) (rows df))))
            \<and> cell s ''hallucinated_count''
              = Num (of_nat (length (filter
                  (\<lambda>r. cell r ''model_name'' = cell s ''model_name''
                       \<and> cell r ''final_label'' = Str ''hallucinated'') (rows df))))
            \<and> cell s ''uncertain_count''
              = Num (of_nat (length (filter
                  (\<lambda>r. cell r ''model_name'' = cell s ''model_name''
                       \<and> cell r ''final_label'' = Str ''uncertain'') (rows df))))"
  proof
    fix s assume "s \<in> set (rows summary)"
    from summary_row [OF ok this]
    show "cell s ''total_responses''
              = Num (of_nat (length (filter
                  (\<lambda>r. cell r ''model_name'' = cell s ''model_name''
                       \<and> \<not> isna (cell r ''final_label'')) (rows df))))
            \<and> cell s ''hallucinated_count''
              = Num (of_nat (length (filter
                  (\<lambda>r. cell r ''model_name'' = cell s ''model_name''
                       \<and> cell r ''final_label'' = Str ''hallucinated'') (rows df))))
            \<and> cell s ''uncertain_count''
              = Num (of_nat (length (filter
                  (\<lambda>r. cell r ''model_name'' = cell s ''model_name''
                       \<and> cell r ''final_label'' = Str ''uncertain'') (rows df))))"
      by (simp only: count_agg_labels count_eq_labels)
  qed
  {
    assume all: "\<forall>r \<in> set (rows df). \<not> isna (cell r ''final_label'')"
    have same: "filter (\<lambda>r. cell r ''model_name'' = k \<and> \<not> isna (cell r ''final_label'')) (rows df)
                = filter (\<lambda>r. cell r ''model_name'' = k) (rows df)" for k
      using all by (intro filter_cong) auto
    show "\<forall>s \<in> set (rows summary).
              cell s ''total_responses''
                = Num (of_nat (length (filter
                    (\<lambda>r. cell r ''model_name'' = cell s ''model_name'') (rows df))))"
      using counts by (simp only: same) simp
  }
next
  assume a: "''model_name'' \<in> set (columns df) \<and> set aggregated_cols \<subseteq> set (columns df)
        \<and> (\<forall>r \<in> set (rows df). \<forall>s. cell r ''confidence_score'' \<noteq> Str s
                                      \<and> cell r ''hallucination_risk_score'' \<noteq> Str s)"
  then have "''model_name'' \<in> set (columns df)" and "set aggregated_cols \<subseteq> set (columns df)"
    and "\<forall>r \<in> set (rows df). \<forall>s. cell r ''confidence_score'' \<noteq> Str s
                                      \<and> cell r ''hallucination_risk_score'' \<noteq> Str s"
    by blast+
  then show "\<exists>summary. generate_model_summary df = Inr summary"
    by (rule generate_model_summary_total)
qed

text \<open>The scored frame of the quick test, through the theorem.\<close>

theorem one_summary_per_model_witness:
  "\<exists>summary. generate_model_summary scored_data = Inr summary
     \<and> values_tolist summary =
         [[Str ''Model-A'', Num 2, Num 1, Num 0, Num (13 / 20), Num (3 / 5), Num (1 / 2)],
          [Str ''Model-B'', Num 1, Num 0, Num 1, Num (4 / 5), Num (1 / 5), Num 0]]
     \<and> distinct (map (\<lambda>s. cell s ''model_name'') (rows summary))
     \<and> list_all (\<lambda>s. cell s ''total_responses''
                = Num (of_nat (length (filter
                    (\<lambda>r. cell r ''model_name'' = cell s ''model_name'') (rows scored_data)))))
         (rows summary)"
proof -
  note t = one_summary_per_model [of scored_data]
  have m: "''model_name'' \<in> set (columns scored_data)" by code_simp
  have c: "set aggregated_cols \<subseteq> set (columns scored_data)" by code_simp
  have n: "\<forall>r \<in> set (rows scored_data). \<forall>s. cell r ''confidence_score'' \<noteq> Str s
                                      \<and> cell r ''hallucination_risk_score'' \<noteq> Str s"
    by (simp add: scored_data_def sample_data_def set_column_def cell_def)
  have l: "\<forall>r \<in> set (rows scored_data). \<not> isna (cell r ''final_label'')"
    by (simp add: scored_data_def sample_data_def set_column_def cell_def)
  from t m c n obtain summary where ok: "generate_model_summary scored_data = Inr summary"
    by blast
  have "map_sum id values_tolist (generate_model_summary scored_data) =
          Inr [[Str ''Model-A'', Num 2, Num 1, Num 0, Num (13 / 20), Num (3 / 5), Num (1 / 2)],
               [Str ''Model-B'', Num 1, Num 0, Num 1, Num (4 / 5), Num (1 / 5), Num 0]]"
    by code_simp
  with ok have vs: "values_tolist summary =
         [[Str ''Model-A'', Num 2, Num 1, Num 0, Num (13 / 20), Num (3 / 5), Num (1 / 2)],
          [Str ''Model-B'', Num 1, Num 0, Num 1, Num (4 / 5), Num (1 / 5), Num 0]]"
    by simp
  from one_summary_per_model [of scored_data summary] ok
  have d: "distinct (map (\<lambda>s. cell s ''model_name'') (rows summary))" by blast
  from one_summary_per_model [of scored_data summary] ok l
  have "\<forall>s \<in> set (rows summary).
              cell s ''total_responses''
                = Num (of_nat (length (filter
                    (\<lambda>r. cell r ''model_name'' = cell s ''model_name'') (rows scored_data))))"
    by blast
  then have "list_all (\<lambda>s. cell s ''total_responses''
                = Num (of_nat (length (filter
                    (\<lambda>r. cell r ''model_name'' = cell s ''model_name'') (rows scored_data)))))
         (rows summary)"
    by (simp only: list_all_iff)
  with ok vs d show ?thesis by blast
qed



text \<open>
  C7. In every row of a summary the three counts are natural numbers with
  \<open>hallucinated_count + uncertain_count \<le> total_responses\<close>.
\<close>

theorem summary_counts_bounded:
  assumes "generate_model_summary df = Inr summary" and "s \<in> set (rows summary)"
  shows "\<exists>h u t. cell s ''hallucinated_count'' = Num (of_nat h)
           \<and> cell s ''uncertain_count'' = Num (of_nat u)
           \<and> cell s ''total_responses'' = Num (of_nat t)
           \<and> h + u \<le> t"
  using summary_row [OF assms] count_le [of "labels_of df (cell s ''model_name'')"] by blast

text \<open>The scored frame of the quick test, through the theorem.\<close>

theorem summary_counts_bounded_witness:
  "\<exists>summary. generate_model_summary scored_data = Inr summary
     \<and> values_tolist summary =
         [[Str ''Model-A'', Num 2, Num 1, Num 0, Num (13 / 20), Num (3 / 5), Num (1 / 2)],
          [Str ''Model-B'', Num 1, Num 0, Num 1, Num (4 / 5), Num (1 / 5), Num 0]]
     \<and> (\<exists>h u t. cell (rows summary ! 0) ''hallucinated_count'' = Num (of_nat h)
           \<and> cell (rows summary ! 0) ''uncertain_count'' = Num (of_nat u)
           \<and> cell (rows summary ! 0) ''total_responses'' = Num (of_nat t)
           \<and> h + u \<le> t)"
proof -
  have "map_sum id values_tolist (generate_model_summary scored_data) =
          Inr [[Str ''Model-A'', Num 2, Num 1, Num 0, Num (13 / 20), Num (3 / 5), Num (1 / 2)],
               [Str ''Model-B'', Num 1, Num 0, Num 1, Num (4 / 5), Num (1 / 5), Num 0]]"
    by code_simp
  then obtain summary where ok: "generate_model_summary scored_data = Inr summary"
    and vs: "values_tolist summary =
         [[Str ''Model-A'', Num 2, Num 1, Num 0, Num (13 / 20), Num (3 / 5), Num (1 / 2)],
          [Str ''Model-B'', Num 1, Num 0, Num 1, Num (4 / 5), Num (1 / 5), Num 0]]"
    using map_sum_values_Inr by blast
  from vs have "length (rows summary) = 2"
    using length_values_tolist [of summary] by simp
  then have "rows summary ! 0 \<in> set (rows summary)" by simp
  with ok have "\<exists>h u t. cell (rows summary ! 0) ''hallucinated_count'' = Num (of_nat h)
           \<and> cell (rows summary ! 0) ''uncertain_count'' = Num (of_nat u)
           \<and> cell (rows summary ! 0) ''total_responses'' = Num (of_nat t)
           \<and> h + u \<le> t"
    by (rule summary_counts_bounded)
  with ok vs show ?thesis by blast
qed

text \<open>
  C10. The check of \<open>generate_model_summary\<close> looks at \<^verbatim>\<open>model_name\<close> only: a frame
  that has this column and lacks \<^verbatim>\<open>confidence_score\<close> or
  \<^verbatim>\<open>hallucination_risk_score\<close> passes it, and the aggregation then fails with
  \<open>KeyError\<close>, which is not the \<open>ValueError\<close> of the check.
\<close>

theorem summary_checks_model_name_only:
  assumes "''model_name'' \<in> set (columns df)"
    and "''confidence_score'' \<notin> set (columns df)
         \<or> ''hallucination_risk_score'' \<notin> set (columns df)"
  shows "generate_model_summary df = Inl KeyError
         \<and> generate_model_summary df \<noteq> Inl ValueError"
proof -
  from assms(2) have "\<not> set aggregated_cols \<subseteq> set (columns df)"
    by (auto simp add: aggregated_cols_def)
  with assms(1) show ?thesis by (simp add: generate_model_summary_def)
qed

text \<open>
  The frame of the quick test before \<open>compute_final_score\<close> has added the risk score,
  through the theorem.
\<close>

theorem summary_checks_model_name_only_witness:
  "''model_name'' \<in> set (columns sample_data)
   \<and> ''hallucination_risk_score'' \<notin> set (columns sample_data)
   \<and> generate_model_summary sample_data = Inl KeyError"
proof -
  have m: "''model_name'' \<in> set (columns sample_data)" by code_simp
  have r: "''hallucination_risk_score'' \<notin> set (columns sample_data)" by code_simp
  then have "''confidence_score'' \<notin> set (columns sample_data)
         \<or> ''hallucination_risk_score'' \<notin> set (columns sample_data)" ..
  with m have "generate_model_summary sample_data = Inl KeyError
         \<and> generate_model_summary sample_data \<noteq> Inl ValueError"
    by (rule summary_checks_model_name_only)
  with m r show ?thesis by blast
qed

end
